theory Spec2Isabelle
  imports Main "HOL-Library.Word" "HOL-Library.Sublist"
begin

section \<open>Values of the plugin framework\<close>

text \<open>
  The attribute values of the plugin framework (package \<open>types\<close>): every value is null,
  unknown or known. The zero value of the Go struct is the null value.
\<close>

datatype tf_String = StringNull | StringUnknown | StringValue string

datatype tf_Bool = BoolNull | BoolUnknown | BoolValue bool

datatype tf_Int64 = Int64Null | Int64Unknown | Int64Value "64 word"

datatype tf_List = ListNull | ListUnknown | ListValue "tf_String list"

text \<open>\<open>ValueString\<close> is the empty string on a null or unknown value.\<close>

fun ValueString :: "tf_String \<Rightarrow> string" where
  "ValueString (StringValue s) = s"
| "ValueString StringNull = ''''"
| "ValueString StringUnknown = ''''"

text \<open>The pointer constructors: a nil pointer gives the null value.\<close>

fun StringPointerValue :: "string option \<Rightarrow> tf_String" where
  "StringPointerValue None = StringNull"
| "StringPointerValue (Some s) = StringValue s"

fun Int64PointerValue :: "64 word option \<Rightarrow> tf_Int64" where
  "Int64PointerValue None = Int64Null"
| "Int64PointerValue (Some v) = Int64Value v"

section \<open>Diagnostics\<close>

datatype Severity = SeverityError | SeverityWarning

datatype Diagnostic = Diag (Severity: Severity) (Summary: string) (Detail: string)

definition HasError :: "Diagnostic list \<Rightarrow> bool" where
  "HasError diags = list_ex (\<lambda>d. Severity d = SeverityError) diags"

text \<open>\<open>Append\<close> adds the diagnostics that the collection does not hold yet, in order.\<close>

fun Append :: "Diagnostic list \<Rightarrow> Diagnostic list \<Rightarrow> Diagnostic list" where
  "Append diags [] = diags"
| "Append diags (d # rest) = Append (if d \<in> set diags then diags else diags @ [d]) rest"

definition AddError :: "Diagnostic list \<Rightarrow> string \<Rightarrow> string \<Rightarrow> Diagnostic list" where
  "AddError diags summary detail = Append diags [Diag SeverityError summary detail]"

section \<open>The API client\<close>

text \<open>
  The records the client returns, with the fields the readers use. A Go \<open>error\<close> is its
  message (what \<open>%s\<close> prints). The Go type \<open>int\<close> of the two cache fields is the type
  parameter \<open>'i\<close>: a machine word of the platform's width.
\<close>

type_synonym error = string

record Workspace =
  Id :: string
  Name :: string

record ChildRepository =
  Id :: string

record 'i Repository =
  Id :: string
  Name :: string
  Status :: string
  PackageType :: string
  RepositoryType :: string
  RemoteRepositoryUrl :: "string option"
  IsRemoteCacheEnabled :: bool
  FileCacheTimeTillRevalidation :: "'i option"
  MetadataCacheTimeTillRevalidation :: "'i option"
  UploadLocalRepositoryId :: "string option"
  ChildRepositories :: "ChildRepository list option"

record 'i Client =
  GetWorkspace :: "string \<Rightarrow> error + Workspace"
  GetRepository :: "string \<Rightarrow> string \<Rightarrow> error + 'i Repository"

text \<open>What a read does to the outside, in order: the calls of the client and the trace log.\<close>

datatype Event =
    GetWorkspaceCall string
  | GetRepositoryCall string string
  | TraceLog string "(string \<times> string) list"

section \<open>Requests and responses\<close>

text \<open>
  \<open>Config_Get\<close> is the outcome of \<open>req.Config.Get(ctx, &data)\<close>: the decoded model and the
  diagnostics of the decoding. \<open>State_Set\<close> gives the diagnostics that \<open>resp.State.Set\<close>
  returns for a value; the state keeps the value when they hold no error.
\<close>

record 'm ReadRequest =
  Config_Get :: "'m \<times> Diagnostic list"

record 'm ReadResponse =
  State :: "'m option"
  State_Set :: "'m \<Rightarrow> Diagnostic list"
  Diagnostics :: "Diagnostic list"

definition Set_State :: "'m ReadResponse \<Rightarrow> 'm \<Rightarrow> 'm ReadResponse" where
  "Set_State resp data =
     (let diags = State_Set resp data;
          resp = (if HasError diags then resp else resp\<lparr>State := Some data\<rparr>)
      in resp\<lparr>Diagnostics := Append (Diagnostics resp) diags\<rparr>)"

section \<open>The workspace data source\<close>

text \<open>
  The model of the workspace is declared outside the file of the readers; the reader uses its
  fields \<open>Name\<close> and \<open>Id\<close>, and the functions below leave any other field as it is.
\<close>

record WorkspaceResourceModel =
  Name :: tf_String
  Id :: tf_String

definition WorkspaceDataSource_Read ::
  "'i Client \<Rightarrow> 'z WorkspaceResourceModel_scheme ReadRequest
     \<Rightarrow> 'z WorkspaceResourceModel_scheme ReadResponse
     \<Rightarrow> 'z WorkspaceResourceModel_scheme ReadResponse \<times> Event list" where
  "WorkspaceDataSource_Read d req resp =
     (let (data, diags) = Config_Get req;
          resp = resp\<lparr>Diagnostics := Append (Diagnostics resp) diags\<rparr>
      in if HasError (Diagnostics resp) then (resp, [])
         else
           let workspace = ValueString (WorkspaceResourceModel.Name data)
           in case GetWorkspace d workspace of
                Inl err \<Rightarrow>
                  (resp\<lparr>Diagnostics := AddError (Diagnostics resp) ''Client Error''
                           (''Unable to get workspace, got error: '' @ err)\<rparr>,
                   [GetWorkspaceCall workspace])
              | Inr ws \<Rightarrow>
                  let data = data\<lparr>WorkspaceResourceModel.Id := StringValue (Workspace.Id ws)\<rparr>;
                      data = data\<lparr>WorkspaceResourceModel.Name := StringValue (Workspace.Name ws)\<rparr>
                  in (Set_State resp data,
                      [GetWorkspaceCall workspace,
                       TraceLog ''read workspace data''
                         [(''name'', workspace), (''id'', Workspace.Id ws)]]))"

section \<open>The repository data source\<close>

record RepositoryDataSourceModel =
  Name :: tf_String
  Id :: tf_String
  WorkspaceId :: tf_String
  PackageType :: tf_String
  RepositoryType :: tf_String
  RepositoryId :: tf_String
  RemoteRepositoryUrl :: tf_String
  RemoteCacheEnabled :: tf_Bool
  FileCacheTimeTillRevalidation :: tf_Int64
  MetadataCacheTimeTillRevalidation :: tf_Int64
  ChildRepositoryIds :: tf_List
  UploadLocalRepositoryId :: tf_String
  Status :: tf_String

text \<open>\<open>strings.Join\<close>: the elements with the separator between them.\<close>

fun strings_Join :: "string list \<Rightarrow> string \<Rightarrow> string" where
  "strings_Join [] sep = ''''"
| "strings_Join [x] sep = x"
| "strings_Join (x # y # rest) sep = x @ sep @ strings_Join (y # rest) sep"

text \<open>
  Modelled from the spec: \<open>factory.IntPtrToInt64Ptr\<close>, of the package \<open>internal/factory\<close>, is
  not among the sources. The spec calls it a lossless optional-integer-widening transform
  (narrow-width optional to wide-width optional) that preserves "no value": nil stays nil,
  and a value is converted to \<open>int64\<close> (sign extension).
\<close>

definition IntPtrToInt64Ptr :: "'w::len word option \<Rightarrow> 64 word option" where
  "IntPtrToInt64Ptr i = (case i of None \<Rightarrow> None | Some v \<Rightarrow> Some (scast v))"

text \<open>
  The loop \<open>for i, child := range rp.ChildRepositories { ids[i] = child.Id }\<close>, from index
  \<open>i\<close> on; \<open>ids\<close> starts as \<open>make([]string, len(rp.ChildRepositories))\<close>.
\<close>

fun collect_ids :: "nat \<Rightarrow> ChildRepository list \<Rightarrow> string list \<Rightarrow> string list" where
  "collect_ids i [] ids = ids"
| "collect_ids i (child # rest) ids = collect_ids (Suc i) rest (ids[i := ChildRepository.Id child])"

text \<open>
  The read of a repository. \<open>ListValueFrom\<close> is the framework's conversion of a Go slice of
  strings to a list value, with its diagnostics. The result is the response and the events.
\<close>

definition RepositoryDataSource_Read ::
  "(string list \<Rightarrow> tf_List \<times> Diagnostic list) \<Rightarrow> ('w::len) word Client
     \<Rightarrow> RepositoryDataSourceModel ReadRequest
     \<Rightarrow> RepositoryDataSourceModel ReadResponse
     \<Rightarrow> RepositoryDataSourceModel ReadResponse \<times> Event list" where
  "RepositoryDataSource_Read ListValueFrom d req resp =
     (let (data, diags) = Config_Get req;
          resp = resp\<lparr>Diagnostics := Append (Diagnostics resp) diags\<rparr>
      in if HasError (Diagnostics resp) then (resp, [])
         else
           let workspace = ValueString (RepositoryDataSourceModel.WorkspaceId data);
               repository = ValueString (RepositoryDataSourceModel.Name data);
               workspaceId = '''';
               (workspaceId, resp) =
                 (case GetWorkspace d workspace of
                    Inl err \<Rightarrow>
                      (workspaceId,
                       resp\<lparr>Diagnostics := AddError (Diagnostics resp) ''Client Error''
                          (''Unable to get worksapce '' @ workspaceId @ '', got error: '' @ err)\<rparr>)
                  | Inr ws \<Rightarrow> (Workspace.Id ws, resp));
               calls = [GetWorkspaceCall workspace, GetRepositoryCall workspaceId repository]
           in case GetRepository d workspaceId repository of
                Inl err \<Rightarrow>
                  (resp\<lparr>Diagnostics := AddError (Diagnostics resp) ''Client Error''
                      (''Unable to read repository '' @ repository @ '' on workspaceId ''
                         @ workspaceId @ '', got error: '' @ err)\<rparr>,
                   calls)
              | Inr rp \<Rightarrow>
                  let data = data\<lparr>RepositoryDataSourceModel.Id :=
                               StringValue (strings_Join [workspaceId, Repository.Id rp] ''/'')\<rparr>;
                      data = data\<lparr>RepositoryId := StringValue (Repository.Id rp)\<rparr>;
                      data = data\<lparr>WorkspaceId := StringValue workspaceId\<rparr>;
                      data = data\<lparr>RepositoryDataSourceModel.Name := StringValue (Repository.Name rp)\<rparr>;
                      data = data\<lparr>RepositoryDataSourceModel.Status := StringValue (Repository.Status rp)\<rparr>;
                      data = (if Repository.RepositoryType rp \<noteq> ''''
                              then data\<lparr>RepositoryDataSourceModel.PackageType :=
                                     StringValue (Repository.PackageType rp)\<rparr>
                              else data);
                      data = (if Repository.RepositoryType rp \<noteq> ''''
                              then data\<lparr>RepositoryDataSourceModel.RepositoryType :=
                                     StringValue (Repository.RepositoryType rp)\<rparr>
                              else data);
                      data = data\<lparr>RepositoryDataSourceModel.RemoteRepositoryUrl :=
                               StringPointerValue (Repository.RemoteRepositoryUrl rp)\<rparr>;
                      data = data\<lparr>RemoteCacheEnabled := BoolValue (IsRemoteCacheEnabled rp)\<rparr>;
                      data = data\<lparr>RepositoryDataSourceModel.FileCacheTimeTillRevalidation :=
                               Int64PointerValue (IntPtrToInt64Ptr
                                 (Repository.FileCacheTimeTillRevalidation rp))\<rparr>;
                      data = data\<lparr>RepositoryDataSourceModel.MetadataCacheTimeTillRevalidation :=
                               Int64PointerValue (IntPtrToInt64Ptr
                                 (Repository.MetadataCacheTimeTillRevalidation rp))\<rparr>;
                      data = data\<lparr>RepositoryDataSourceModel.UploadLocalRepositoryId :=
                               StringPointerValue (Repository.UploadLocalRepositoryId rp)\<rparr>;
                      (returned, data, resp) =
                        (case ChildRepositories rp of
                           None \<Rightarrow> (False, data\<lparr>ChildRepositoryIds := ListNull\<rparr>, resp)
                         | Some children \<Rightarrow>
                             let ids = collect_ids 0 children (replicate (length children) '''');
                                 (listValue, listDiags) = ListValueFrom ids;
                                 resp = resp\<lparr>Diagnostics := Append (Diagnostics resp) listDiags\<rparr>
                             in if HasError (Diagnostics resp) then (True, data, resp)
                                else (False, data\<lparr>ChildRepositoryIds := listValue\<rparr>, resp))
                  in if returned then (resp, calls)
                     else (Set_State resp data,
                           calls @ [TraceLog ''read repository data''
                                      [(''name'', repository), (''id'', Repository.Id rp),
                                       (''workspace'', workspaceId)]]))"

text \<open>
  The two blocks of the read of a repository, named for the proofs: the assignments of the
  fields (from the composite id to the upload repository id) and the handling of the children.
  \<open>Read_after_fetch\<close> below shows that the read is their composition.
\<close>

definition Read_fields ::
  "string \<Rightarrow> ('w::len) word Repository \<Rightarrow> RepositoryDataSourceModel \<Rightarrow> RepositoryDataSourceModel" where
  "Read_fields workspaceId rp data =
     (let data = data\<lparr>RepositoryDataSourceModel.Id :=
                   StringValue (strings_Join [workspaceId, Repository.Id rp] ''/'')\<rparr>;
          data = data\<lparr>RepositoryId := StringValue (Repository.Id rp)\<rparr>;
          data = data\<lparr>WorkspaceId := StringValue workspaceId\<rparr>;
          data = data\<lparr>RepositoryDataSourceModel.Name := StringValue (Repository.Name rp)\<rparr>;
          data = data\<lparr>RepositoryDataSourceModel.Status := StringValue (Repository.Status rp)\<rparr>;
          data = (if Repository.RepositoryType rp \<noteq> ''''
                  then data\<lparr>RepositoryDataSourceModel.PackageType :=
                         StringValue (Repository.PackageType rp)\<rparr>
                  else data);
          data = (if Repository.RepositoryType rp \<noteq> ''''
                  then data\<lparr>RepositoryDataSourceModel.RepositoryType :=
                         StringValue (Repository.RepositoryType rp)\<rparr>
                  else data);
          data = data\<lparr>RepositoryDataSourceModel.RemoteRepositoryUrl :=
                   StringPointerValue (Repository.RemoteRepositoryUrl rp)\<rparr>;
          data = data\<lparr>RemoteCacheEnabled := BoolValue (IsRemoteCacheEnabled rp)\<rparr>;
          data = data\<lparr>RepositoryDataSourceModel.FileCacheTimeTillRevalidation :=
                   Int64PointerValue (IntPtrToInt64Ptr
                     (Repository.FileCacheTimeTillRevalidation rp))\<rparr>;
          data = data\<lparr>RepositoryDataSourceModel.MetadataCacheTimeTillRevalidation :=
                   Int64PointerValue (IntPtrToInt64Ptr
                     (Repository.MetadataCacheTimeTillRevalidation rp))\<rparr>;
          data = data\<lparr>RepositoryDataSourceModel.UploadLocalRepositoryId :=
                   StringPointerValue (Repository.UploadLocalRepositoryId rp)\<rparr>
      in data)"

definition Read_children ::
  "(string list \<Rightarrow> tf_List \<times> Diagnostic list) \<Rightarrow> ChildRepository list option
     \<Rightarrow> RepositoryDataSourceModel \<Rightarrow> RepositoryDataSourceModel ReadResponse
     \<Rightarrow> bool \<times> RepositoryDataSourceModel \<times> RepositoryDataSourceModel ReadResponse" where
  "Read_children ListValueFrom children data resp =
     (case children of
        None \<Rightarrow> (False, data\<lparr>ChildRepositoryIds := ListNull\<rparr>, resp)
      | Some children \<Rightarrow>
          let ids = collect_ids 0 children (replicate (length children) '''');
              (listValue, listDiags) = ListValueFrom ids;
              resp = resp\<lparr>Diagnostics := Append (Diagnostics resp) listDiags\<rparr>
          in if HasError (Diagnostics resp) then (True, data, resp)
             else (False, data\<lparr>ChildRepositoryIds := listValue\<rparr>, resp))"

text \<open>
  Following the spec's words ("reversible by splitting on the first \<open>/\<close>"): the part before the
  first \<open>/\<close> of a string and the part after it. The readers themselves never split the key.
\<close>

definition split_first_slash :: "string \<Rightarrow> string \<times> string" where
  "split_first_slash s =
     (takeWhile (\<lambda>c. c \<noteq> CHR ''/'') s, drop 1 (dropWhile (\<lambda>c. c \<noteq> CHR ''/'') s))"

section \<open>A test double of the client\<close>

text \<open>
  The scenario of the spec: workspace \<open>acme\<close> has id \<open>w-1\<close>; its repository \<open>libs\<close> is local,
  \<open>raw\<close> has no repository type, \<open>all\<close> is virtual with two children. The workspace \<open>team\<close> has
  an id with a slash. The client also answers for an empty workspace id.
\<close>

definition example_workspace :: Workspace where
  "example_workspace = \<lparr>Workspace.Id = ''w-1'', Name = ''acme''\<rparr>"

definition example_repository :: "32 word Repository" where
  "example_repository =
     \<lparr>Repository.Id = ''r-9'', Name = ''libs'', Status = ''ready'', PackageType = ''npm'',
      RepositoryType = ''local'', RemoteRepositoryUrl = None, IsRemoteCacheEnabled = False,
      FileCacheTimeTillRevalidation = None, MetadataCacheTimeTillRevalidation = None,
      UploadLocalRepositoryId = None, ChildRepositories = None\<rparr>"

definition example_untyped :: "32 word Repository" where
  "example_untyped =
     example_repository\<lparr>Repository.Id := ''r-2'', Repository.Name := ''raw'',
       Repository.RepositoryType := ''''\<rparr>"

definition example_virtual :: "32 word Repository" where
  "example_virtual =
     \<lparr>Repository.Id = ''r-3'', Name = ''all'', Status = ''ready'', PackageType = ''npm'',
      RepositoryType = ''virtual'', RemoteRepositoryUrl = Some ''https://registry.npmjs.org'',
      IsRemoteCacheEnabled = True,
      FileCacheTimeTillRevalidation = Some 0, MetadataCacheTimeTillRevalidation = Some 86400000,
      UploadLocalRepositoryId = Some ''r-9'',
      ChildRepositories =
        Some [\<lparr>ChildRepository.Id = ''r-9''\<rparr>, \<lparr>ChildRepository.Id = ''r-2''\<rparr>]\<rparr>"

definition example_client :: "32 word Client" where
  "example_client =
     \<lparr>GetWorkspace = (\<lambda>name.
        if name = ''acme'' then Inr example_workspace
        else if name = ''team'' then Inr \<lparr>Workspace.Id = ''a/b'', Name = ''team''\<rparr>
        else Inl (''workspace '' @ name @ '' not found'')),
      GetRepository = (\<lambda>workspaceId name.
        if name = ''libs'' \<and> workspaceId = ''w-1'' then Inr example_repository
        else if name = ''raw'' \<and> workspaceId = ''w-1''
          then Inr example_untyped
        else if name = ''all'' \<and> (workspaceId = ''w-1'' \<or> workspaceId = '''')
          then Inr example_virtual
        else if name = ''libs'' \<and> workspaceId = ''a/b''
          then Inr (example_repository\<lparr>Repository.Id := ''c''\<rparr>)
        else if name = ''libs'' \<and> workspaceId = '''' then Inr example_repository
        else Inl ''repository not found'')\<rparr>"

text \<open>The conversion of a slice of strings as the framework does it, and one that fails.\<close>

definition example_ListValueFrom :: "string list \<Rightarrow> tf_List \<times> Diagnostic list" where
  "example_ListValueFrom ids = (ListValue (map StringValue ids), [])"

definition failing_ListValueFrom :: "string list \<Rightarrow> tf_List \<times> Diagnostic list" where
  "failing_ListValueFrom ids =
     (ListUnknown, [Diag SeverityError ''List Type Validation Error'' ''unexpected element type''])"

text \<open>A configuration that names a workspace and a repository; the computed attributes are null.\<close>

definition example_request :: "string \<Rightarrow> string \<Rightarrow> RepositoryDataSourceModel ReadRequest" where
  "example_request workspace name =
     \<lparr>Config_Get =
        (\<lparr>RepositoryDataSourceModel.Name = StringValue name, Id = StringNull,
          WorkspaceId = StringValue workspace, PackageType = StringNull,
          RepositoryType = StringNull, RepositoryId = StringNull,
          RemoteRepositoryUrl = StringNull, RemoteCacheEnabled = BoolNull,
          FileCacheTimeTillRevalidation = Int64Null,
          MetadataCacheTimeTillRevalidation = Int64Null, ChildRepositoryIds = ListNull,
          UploadLocalRepositoryId = StringNull, Status = StringNull\<rparr>, [])\<rparr>"

text \<open>The same configuration, holding values in its two type fields already.\<close>

definition example_typed_request :: "string \<Rightarrow> string \<Rightarrow> RepositoryDataSourceModel ReadRequest" where
  "example_typed_request workspace name =
     \<lparr>Config_Get =
        ((fst (Config_Get (example_request workspace name)))
           \<lparr>RepositoryDataSourceModel.PackageType := StringValue ''maven'',
            RepositoryDataSourceModel.RepositoryType := StringValue ''remote''\<rparr>, [])\<rparr>"

definition example_workspace_request :: "string \<Rightarrow> WorkspaceResourceModel ReadRequest" where
  "example_workspace_request name =
     \<lparr>Config_Get = (\<lparr>WorkspaceResourceModel.Name = StringValue name, Id = StringNull\<rparr>, [])\<rparr>"

text \<open>The response as the host hands it to a read: no state, no diagnostics.\<close>

definition example_response :: "'m ReadResponse" where
  "example_response = \<lparr>State = None, State_Set = (\<lambda>v. []), Diagnostics = []\<rparr>"

section \<open>Diagnostics: basic facts\<close>

lemma set_Append: "set (Append ds new) = set ds \<union> set new"
  by (induction new arbitrary: ds) auto

lemma HasError_set: "HasError ds = (\<exists>d \<in> set ds. Severity d = SeverityError)"
  by (simp add: HasError_def list_ex_iff)

lemma HasError_Append: "HasError (Append ds new) = (HasError ds \<or> HasError new)"
  by (auto simp: HasError_set set_Append)

lemma Append_extends: "\<exists>xs. Append ds new = ds @ xs"
proof (induction new arbitrary: ds)
  case Nil
  then show ?case by simp
next
  case (Cons d new)
  obtain xs where "Append (if d \<in> set ds then ds else ds @ [d]) new
                   = (if d \<in> set ds then ds else ds @ [d]) @ xs"
    using Cons.IH by blast
  then show ?case by (cases "d \<in> set ds") auto
qed

lemma AddError_fresh:
  "\<not> HasError ds \<Longrightarrow> AddError ds s m = ds @ [Diag SeverityError s m]"
  by (auto simp: AddError_def HasError_def list_ex_iff)

lemma HasError_AddError: "HasError (AddError ds s m)"
proof -
  have "HasError [Diag SeverityError s m]" by (simp add: HasError_def)
  then show ?thesis unfolding AddError_def by (simp only: HasError_Append simp_thms)
qed

lemma filter_no_error:
  "\<not> HasError ds \<Longrightarrow> filter (\<lambda>d. Severity d = SeverityError) ds = []"
  by (auto simp: HasError_set filter_empty_conv)

section \<open>The loop over the children\<close>

lemma collect_ids_from:
  "length ids = i + length cs \<Longrightarrow>
   collect_ids i cs ids = take i ids @ map ChildRepository.Id cs"
proof (induction cs arbitrary: i ids)
  case Nil
  then show ?case by simp
next
  case (Cons c cs)
  have "collect_ids (Suc i) cs (ids[i := ChildRepository.Id c])
        = take (Suc i) (ids[i := ChildRepository.Id c]) @ map ChildRepository.Id cs"
    using Cons.prems by (intro Cons.IH) simp
  moreover have "take (Suc i) (ids[i := ChildRepository.Id c]) = take i ids @ [ChildRepository.Id c]"
    using Cons.prems by (simp add: take_Suc_conv_app_nth)
  ultimately show ?case by simp
qed

lemma collect_ids_map:
  "collect_ids 0 cs (replicate (length cs) '''') = map ChildRepository.Id cs"
  by (simp add: collect_ids_from)

section \<open>The readers on the test double\<close>

lemmas example_defs = example_workspace_def example_repository_def example_untyped_def
  example_virtual_def example_client_def example_ListValueFrom_def failing_ListValueFrom_def
  example_request_def example_response_def example_workspace_request_def

lemmas read_defs = RepositoryDataSource_Read_def WorkspaceDataSource_Read_def Set_State_def
  HasError_def AddError_def IntPtrToInt64Ptr_def Let_def

lemma example_read_libs:
  "RepositoryDataSource_Read example_ListValueFrom example_client
     (example_request ''acme'' ''libs'') example_response =
   (\<lparr>State = Some
       \<lparr>RepositoryDataSourceModel.Name = StringValue ''libs'',
        Id = StringValue ''w-1/r-9'', WorkspaceId = StringValue ''w-1'',
        PackageType = StringValue ''npm'', RepositoryType = StringValue ''local'',
        RepositoryId = StringValue ''r-9'', RemoteRepositoryUrl = StringNull,
        RemoteCacheEnabled = BoolValue False, FileCacheTimeTillRevalidation = Int64Null,
        MetadataCacheTimeTillRevalidation = Int64Null, ChildRepositoryIds = ListNull,
        UploadLocalRepositoryId = StringNull, Status = StringValue ''ready''\<rparr>,
     State_Set = (\<lambda>v. []), Diagnostics = []\<rparr>,
    [GetWorkspaceCall ''acme'', GetRepositoryCall ''w-1'' ''libs'',
     TraceLog ''read repository data''
       [(''name'', ''libs''), (''id'', ''r-9''), (''workspace'', ''w-1'')]])"
  by (simp add: example_defs read_defs)

lemma example_read_raw:
  "RepositoryDataSource_Read example_ListValueFrom example_client
     (example_request ''acme'' ''raw'') example_response =
   (\<lparr>State = Some
       \<lparr>RepositoryDataSourceModel.Name = StringValue ''raw'',
        Id = StringValue ''w-1/r-2'', WorkspaceId = StringValue ''w-1'',
        PackageType = StringNull, RepositoryType = StringNull,
        RepositoryId = StringValue ''r-2'', RemoteRepositoryUrl = StringNull,
        RemoteCacheEnabled = BoolValue False, FileCacheTimeTillRevalidation = Int64Null,
        MetadataCacheTimeTillRevalidation = Int64Null, ChildRepositoryIds = ListNull,
        UploadLocalRepositoryId = StringNull, Status = StringValue ''ready''\<rparr>,
     State_Set = (\<lambda>v. []), Diagnostics = []\<rparr>,
    [GetWorkspaceCall ''acme'', GetRepositoryCall ''w-1'' ''raw'',
     TraceLog ''read repository data''
       [(''name'', ''raw''), (''id'', ''r-2''), (''workspace'', ''w-1'')]])"
  by (simp add: example_defs read_defs)

lemma example_read_all:
  "RepositoryDataSource_Read example_ListValueFrom example_client
     (example_request ''acme'' ''all'') example_response =
   (\<lparr>State = Some
       \<lparr>RepositoryDataSourceModel.Name = StringValue ''all'',
        Id = StringValue ''w-1/r-3'', WorkspaceId = StringValue ''w-1'',
        PackageType = StringValue ''npm'', RepositoryType = StringValue ''virtual'',
        RepositoryId = StringValue ''r-3'',
        RemoteRepositoryUrl = StringValue ''https://registry.npmjs.org'',
        RemoteCacheEnabled = BoolValue True,
        FileCacheTimeTillRevalidation = Int64Value 0,
        MetadataCacheTimeTillRevalidation = Int64Value 86400000,
        ChildRepositoryIds = ListValue [StringValue ''r-9'', StringValue ''r-2''],
        UploadLocalRepositoryId = StringValue ''r-9'', Status = StringValue ''ready''\<rparr>,
     State_Set = (\<lambda>v. []), Diagnostics = []\<rparr>,
    [GetWorkspaceCall ''acme'', GetRepositoryCall ''w-1'' ''all'',
     TraceLog ''read repository data''
       [(''name'', ''all''), (''id'', ''r-3''), (''workspace'', ''w-1'')]])"
  by (simp add: example_defs read_defs)

lemma example_read_team_libs:
  "RepositoryDataSource_Read example_ListValueFrom example_client
     (example_request ''team'' ''libs'') example_response =
   (\<lparr>State = Some
       \<lparr>RepositoryDataSourceModel.Name = StringValue ''libs'',
        Id = StringValue ''a/b/c'', WorkspaceId = StringValue ''a/b'',
        PackageType = StringValue ''npm'', RepositoryType = StringValue ''local'',
        RepositoryId = StringValue ''c'', RemoteRepositoryUrl = StringNull,
        RemoteCacheEnabled = BoolValue False, FileCacheTimeTillRevalidation = Int64Null,
        MetadataCacheTimeTillRevalidation = Int64Null, ChildRepositoryIds = ListNull,
        UploadLocalRepositoryId = StringNull, Status = StringValue ''ready''\<rparr>,
     State_Set = (\<lambda>v. []), Diagnostics = []\<rparr>,
    [GetWorkspaceCall ''team'', GetRepositoryCall ''a/b'' ''libs'',
     TraceLog ''read repository data''
       [(''name'', ''libs''), (''id'', ''c''), (''workspace'', ''a/b'')]])"
  by (simp add: example_defs read_defs)

lemma example_read_ghost_libs:
  "RepositoryDataSource_Read example_ListValueFrom example_client
     (example_request ''ghost'' ''libs'') example_response =
   (\<lparr>State = Some
       \<lparr>RepositoryDataSourceModel.Name = StringValue ''libs'',
        Id = StringValue ''/r-9'', WorkspaceId = StringValue '''',
        PackageType = StringValue ''npm'', RepositoryType = StringValue ''local'',
        RepositoryId = StringValue ''r-9'', RemoteRepositoryUrl = StringNull,
        RemoteCacheEnabled = BoolValue False, FileCacheTimeTillRevalidation = Int64Null,
        MetadataCacheTimeTillRevalidation = Int64Null, ChildRepositoryIds = ListNull,
        UploadLocalRepositoryId = StringNull, Status = StringValue ''ready''\<rparr>,
     State_Set = (\<lambda>v. []),
     Diagnostics =
       [Diag SeverityError ''Client Error''
          ''Unable to get worksapce , got error: workspace ghost not found'']\<rparr>,
    [GetWorkspaceCall ''ghost'', GetRepositoryCall '''' ''libs'',
     TraceLog ''read repository data''
       [(''name'', ''libs''), (''id'', ''r-9''), (''workspace'', '''')]])"
  by (simp add: example_defs read_defs)

lemma example_read_ghost_all:
  "RepositoryDataSource_Read example_ListValueFrom example_client
     (example_request ''ghost'' ''all'') example_response =
   (\<lparr>State = None, State_Set = (\<lambda>v. []),
     Diagnostics =
       [Diag SeverityError ''Client Error''
          ''Unable to get worksapce , got error: workspace ghost not found'']\<rparr>,
    [GetWorkspaceCall ''ghost'', GetRepositoryCall '''' ''all''])"
  by (simp add: example_defs read_defs)

lemma example_read_nope:
  "RepositoryDataSource_Read example_ListValueFrom example_client
     (example_request ''acme'' ''nope'') example_response =
   (\<lparr>State = None, State_Set = (\<lambda>v. []),
     Diagnostics =
       [Diag SeverityError ''Client Error''
          ''Unable to read repository nope on workspaceId w-1, got error: repository not found'']\<rparr>,
    [GetWorkspaceCall ''acme'', GetRepositoryCall ''w-1'' ''nope''])"
  by (simp add: example_defs read_defs)

lemma example_read_all_failing_list:
  "RepositoryDataSource_Read failing_ListValueFrom example_client
     (example_request ''acme'' ''all'') example_response =
   (\<lparr>State = None, State_Set = (\<lambda>v. []),
     Diagnostics =
       [Diag SeverityError ''List Type Validation Error'' ''unexpected element type'']\<rparr>,
    [GetWorkspaceCall ''acme'', GetRepositoryCall ''w-1'' ''all''])"
  by (simp add: example_defs read_defs)

lemma example_read_workspace_acme:
  "WorkspaceDataSource_Read example_client (example_workspace_request ''acme'') example_response =
   (\<lparr>State = Some \<lparr>WorkspaceResourceModel.Name = StringValue ''acme'', Id = StringValue ''w-1''\<rparr>,
     State_Set = (\<lambda>v. []), Diagnostics = []\<rparr>,
    [GetWorkspaceCall ''acme'',
     TraceLog ''read workspace data'' [(''name'', ''acme''), (''id'', ''w-1'')]])"
  by (simp add: example_defs read_defs)

lemma example_read_workspace_ghost:
  "WorkspaceDataSource_Read example_client (example_workspace_request ''ghost'') example_response =
   (\<lparr>State = None, State_Set = (\<lambda>v. []),
     Diagnostics =
       [Diag SeverityError ''Client Error''
          ''Unable to get workspace, got error: workspace ghost not found'']\<rparr>,
    [GetWorkspaceCall ''ghost''])"
  by (simp add: example_defs read_defs)

section \<open>The read of a repository, block by block\<close>

lemma Read_after_fetch:
  "RepositoryDataSource_Read lvf d req resp =
     (let (data, diags) = Config_Get req;
          resp = resp\<lparr>Diagnostics := Append (Diagnostics resp) diags\<rparr>
      in if HasError (Diagnostics resp) then (resp, [])
         else
           let workspace = ValueString (RepositoryDataSourceModel.WorkspaceId data);
               repository = ValueString (RepositoryDataSourceModel.Name data);
               (workspaceId, resp) =
                 (case GetWorkspace d workspace of
                    Inl err \<Rightarrow>
                      ('''',
                       resp\<lparr>Diagnostics := AddError (Diagnostics resp) ''Client Error''
                          (''Unable to get worksapce '' @ '''' @ '', got error: '' @ err)\<rparr>)
                  | Inr ws \<Rightarrow> (Workspace.Id ws, resp));
               calls = [GetWorkspaceCall workspace, GetRepositoryCall workspaceId repository]
           in case GetRepository d workspaceId repository of
                Inl err \<Rightarrow>
                  (resp\<lparr>Diagnostics := AddError (Diagnostics resp) ''Client Error''
                      (''Unable to read repository '' @ repository @ '' on workspaceId ''
                         @ workspaceId @ '', got error: '' @ err)\<rparr>,
                   calls)
              | Inr rp \<Rightarrow>
                  let (returned, data, resp) =
                        Read_children lvf (ChildRepositories rp) (Read_fields workspaceId rp data) resp
                  in if returned then (resp, calls)
                     else (Set_State resp data,
                           calls @ [TraceLog ''read repository data''
                                      [(''name'', repository), (''id'', Repository.Id rp),
                                       (''workspace'', workspaceId)]]))"
  unfolding RepositoryDataSource_Read_def Read_fields_def Read_children_def Let_def
  by (rule refl)


lemma Read_children_State:
  "Read_children lvf ch data resp = (returned, data', resp') \<Longrightarrow> State resp' = State resp"
  by (auto simp: Read_children_def Let_def split: option.splits prod.splits if_splits)

lemma Read_children_False:
  assumes "Read_children lvf ch data resp = (False, data', resp')"
  shows "State resp' = State resp \<and> State_Set resp' = State_Set resp \<and>
         (\<exists>v. data' = data\<lparr>ChildRepositoryIds := v\<rparr> \<and>
             (case ch of None \<Rightarrow> v = ListNull
              | Some cs \<Rightarrow> v = fst (lvf (map ChildRepository.Id cs)) \<and>
                           \<not> HasError (snd (lvf (map ChildRepository.Id cs)))))"
  using assms
  by (auto simp: Read_children_def Let_def collect_ids_map HasError_Append
           split: option.splits prod.splits if_splits)

lemma Read_children_True:
  assumes "Read_children lvf ch data resp = (True, data', resp')"
  shows "State resp' = State resp \<and> HasError (Diagnostics resp') \<and> (\<exists>cs. ch = Some cs)"
  using assms
  by (auto simp: Read_children_def Let_def split: option.splits prod.splits if_splits)

lemma State_Set_State:
  "State (Set_State resp data) = (if HasError (State_Set resp data) then State resp else Some data)"
  by (simp add: Set_State_def Let_def)

lemma Read_written:
  assumes run: "RepositoryDataSource_Read lvf d req resp = (resp', tr)"
    and fresh: "State resp = None" and written: "State resp' = Some st"
  shows "\<exists>wid rp v.
           GetRepository d wid (ValueString (RepositoryDataSourceModel.Name (fst (Config_Get req)))) = Inr rp \<and>
           tr = [GetWorkspaceCall (ValueString (RepositoryDataSourceModel.WorkspaceId (fst (Config_Get req)))),
                 GetRepositoryCall wid (ValueString (RepositoryDataSourceModel.Name (fst (Config_Get req)))),
                 TraceLog ''read repository data''
                   [(''name'', ValueString (RepositoryDataSourceModel.Name (fst (Config_Get req)))),
                    (''id'', Repository.Id rp), (''workspace'', wid)]] \<and>
           st = (Read_fields wid rp (fst (Config_Get req)))\<lparr>ChildRepositoryIds := v\<rparr> \<and>
           (case ChildRepositories rp of None \<Rightarrow> v = ListNull
            | Some cs \<Rightarrow> v = fst (lvf (map ChildRepository.Id cs)) \<and>
                         \<not> HasError (snd (lvf (map ChildRepository.Id cs))))"
  using assms
  by (auto simp: Read_after_fetch Let_def State_Set_State
           split: prod.splits if_splits sum.splits
           dest!: Read_children_False Read_children_True)

section \<open>Facts about the blocks\<close>

lemma Read_fields_sel:
  "RepositoryDataSourceModel.Id (Read_fields wid rp data) = StringValue (wid @ ''/'' @ Repository.Id rp)"
  "RepositoryDataSourceModel.WorkspaceId (Read_fields wid rp data) = StringValue wid"
  "RepositoryDataSourceModel.RepositoryId (Read_fields wid rp data) = StringValue (Repository.Id rp)"
  "RepositoryDataSourceModel.Name (Read_fields wid rp data) = StringValue (Repository.Name rp)"
  "RepositoryDataSourceModel.Status (Read_fields wid rp data) = StringValue (Repository.Status rp)"
  "RepositoryDataSourceModel.PackageType (Read_fields wid rp data) =
     (if Repository.RepositoryType rp \<noteq> '''' then StringValue (Repository.PackageType rp)
      else RepositoryDataSourceModel.PackageType data)"
  "RepositoryDataSourceModel.RepositoryType (Read_fields wid rp data) =
     (if Repository.RepositoryType rp \<noteq> '''' then StringValue (Repository.RepositoryType rp)
      else RepositoryDataSourceModel.RepositoryType data)"
  "RepositoryDataSourceModel.RemoteRepositoryUrl (Read_fields wid rp data) =
     StringPointerValue (Repository.RemoteRepositoryUrl rp)"
  "RemoteCacheEnabled (Read_fields wid rp data) = BoolValue (IsRemoteCacheEnabled rp)"
  "RepositoryDataSourceModel.FileCacheTimeTillRevalidation (Read_fields wid rp data) =
     Int64PointerValue (IntPtrToInt64Ptr (Repository.FileCacheTimeTillRevalidation rp))"
  "RepositoryDataSourceModel.MetadataCacheTimeTillRevalidation (Read_fields wid rp data) =
     Int64PointerValue (IntPtrToInt64Ptr (Repository.MetadataCacheTimeTillRevalidation rp))"
  "RepositoryDataSourceModel.UploadLocalRepositoryId (Read_fields wid rp data) =
     StringPointerValue (Repository.UploadLocalRepositoryId rp)"
  by (simp_all add: Read_fields_def Let_def)

lemma Read_written_fetched:
  assumes "RepositoryDataSource_Read lvf d req resp = (resp', tr)"
    and "State resp = None" and "State resp' = Some st"
    and "GetRepositoryCall wid name \<in> set tr" and "GetRepository d wid name = Inr rp"
  shows "\<exists>v. st = (Read_fields wid rp (fst (Config_Get req)))\<lparr>ChildRepositoryIds := v\<rparr> \<and>
             (case ChildRepositories rp of None \<Rightarrow> v = ListNull
              | Some cs \<Rightarrow> v = fst (lvf (map ChildRepository.Id cs)) \<and>
                           \<not> HasError (snd (lvf (map ChildRepository.Id cs))))"
  using Read_written [OF assms(1-3)] assms(4,5) by auto

lemma split_first_slash_join:
  "CHR ''/'' \<notin> set a \<Longrightarrow> split_first_slash (a @ CHR ''/'' # b) = (a, b)"
  unfolding split_first_slash_def by (induction a) auto

lemma scast_keeps_value:
  "LENGTH('w::len) \<le> 64 \<Longrightarrow> sint (scast (v :: 'w word) :: 64 word) = sint v"
  by (simp add: sint_up_scast is_up)

lemma example_response_fresh:
  "State (example_response :: 'm ReadResponse) = None"
  by (simp add: example_response_def)

section \<open>Facts about the diagnostics of a read\<close>

lemma prefix_Append: "prefix ds (Append ds new)"
  using Append_extends [of ds new] by (auto simp: prefix_def)

lemma prefix_AddError: "prefix ds (AddError ds s m)"
  by (simp add: AddError_def prefix_Append del: Append.simps)

lemma Read_children_prefix:
  "Read_children lvf ch data resp = (returned, data', resp') \<Longrightarrow>
   prefix (Diagnostics resp) (Diagnostics resp')"
  by (auto simp: Read_children_def Let_def prefix_Append split: option.splits prod.splits if_splits)

lemma Set_State_prefix: "prefix (Diagnostics resp) (Diagnostics (Set_State resp data))"
  by (simp add: Set_State_def Let_def prefix_Append)

lemma Read_children_failing:
  assumes "HasError (snd (lvf (map ChildRepository.Id cs)))"
  shows "Read_children lvf (Some cs) data resp =
           (True, data,
            resp\<lparr>Diagnostics := Append (Diagnostics resp) (snd (lvf (map ChildRepository.Id cs)))\<rparr>)"
  using assms
  by (cases "lvf (map ChildRepository.Id cs)")
     (simp add: Read_children_def Let_def collect_ids_map HasError_Append)

lemma first_error_after_prefix:
  assumes "\<not> HasError ds" and "prefix (ds @ [Diag SeverityError s m]) xs"
  shows "\<exists>rest. filter (\<lambda>x. Severity x = SeverityError) xs = Diag SeverityError s m # rest"
proof -
  obtain zs where "xs = (ds @ [Diag SeverityError s m]) @ zs"
    using assms(2) by (auto simp: prefix_def)
  then show ?thesis using assms(1) by (simp add: filter_no_error)
qed

lemma Read_workspace_failure_prefix:
  assumes cfg: "Config_Get req = (data, cds)"
    and noerr: "\<not> HasError (Append (Diagnostics resp) cds)"
    and ws: "GetWorkspace d (ValueString (RepositoryDataSourceModel.WorkspaceId data)) = Inl e"
    and run: "RepositoryDataSource_Read lvf d req resp = (resp', tr)"
  shows "prefix (Append (Diagnostics resp) cds @
                   [Diag SeverityError ''Client Error''
                      (''Unable to get worksapce '' @ '''' @ '', got error: '' @ e)])
                (Diagnostics resp')"
  using assms
  by (auto simp: Read_after_fetch Let_def AddError_fresh
           split: sum.splits prod.splits if_splits
           intro: prefix_AddError prefix_order.trans [OF _ Set_State_prefix]
           dest!: Read_children_prefix)

lemma Read_children_None:
  "Read_children lvf None data resp = (False, data\<lparr>ChildRepositoryIds := ListNull\<rparr>, resp)"
  by (simp add: Read_children_def)

lemma example_request_config:
  "Config_Get (example_request workspace name) =
     (fst (Config_Get (example_request workspace name)), [])"
  by (simp add: example_request_def)

lemma example_response_no_error:
  "\<not> HasError (Append (Diagnostics (example_response :: 'm ReadResponse)) [])"
  by (simp add: example_response_def HasError_def)

lemma example_response_set_ok:
  "\<not> HasError (State_Set (example_response :: 'm ReadResponse) v)"
  by (simp add: example_response_def HasError_def)

lemma Read_children_ok:
  assumes "\<not> HasError (Diagnostics resp)"
    and "\<not> HasError (snd (lvf (map ChildRepository.Id cs)))"
  shows "Read_children lvf (Some cs) data resp =
           (False, data\<lparr>ChildRepositoryIds := fst (lvf (map ChildRepository.Id cs))\<rparr>,
            resp\<lparr>Diagnostics := Append (Diagnostics resp) (snd (lvf (map ChildRepository.Id cs)))\<rparr>)"
  using assms
  by (cases "lvf (map ChildRepository.Id cs)")
     (simp add: Read_children_def Let_def collect_ids_map HasError_Append)

lemma Read_writes:
  assumes "Config_Get req = (data, cds)"
    and "\<not> HasError (Append (Diagnostics resp) cds)"
    and "wid = (case GetWorkspace d (ValueString (RepositoryDataSourceModel.WorkspaceId data)) of
                  Inl e \<Rightarrow> '''' | Inr ws \<Rightarrow> Workspace.Id ws)"
    and "GetRepository d wid (ValueString (RepositoryDataSourceModel.Name data)) = Inr rp"
    and "\<And>cs. ChildRepositories rp = Some cs \<Longrightarrow>
           \<not> isl (GetWorkspace d (ValueString (RepositoryDataSourceModel.WorkspaceId data))) \<and>
           \<not> HasError (snd (lvf (map ChildRepository.Id cs)))"
    and "\<And>v. \<not> HasError (State_Set resp v)"
  shows "\<exists>v. State (fst (RepositoryDataSource_Read lvf d req resp)) =
               Some ((Read_fields wid rp data)\<lparr>ChildRepositoryIds := v\<rparr>)"
proof (cases "ChildRepositories rp")
  case None
  with assms(1-4,6) show ?thesis
    by (cases "GetWorkspace d (ValueString (RepositoryDataSourceModel.WorkspaceId data))")
       (auto simp: Read_after_fetch Let_def Read_children_None State_Set_State)
next
  case (Some cs)
  from assms(5) [OF Some] obtain ws
    where ws: "GetWorkspace d (ValueString (RepositoryDataSourceModel.WorkspaceId data)) = Inr ws"
      and ok: "\<not> HasError (snd (lvf (map ChildRepository.Id cs)))"
    by (cases "GetWorkspace d (ValueString (RepositoryDataSourceModel.WorkspaceId data))") auto
  with assms(1-4,6) Some show ?thesis
    by (auto simp: Read_after_fetch Let_def Read_children_ok State_Set_State)
qed

section \<open>The claims about a read that writes the state\<close>

text \<open>
  Claim C1. When the configuration decodes, \<open>GetRepository\<close> answers with a record for the
  workspace id that the read holds (the id of the workspace found, or the empty string after a
  failed lookup), and neither the conversion of the children nor \<open>State.Set\<close> reports an error,
  the read writes the state, and one test of the fetched \<open>RepositoryType\<close> decides both
  fields: when it is empty, \<open>PackageType\<close> and \<open>RepositoryType\<close> of the state are what the
  configuration held (nothing is written to them, whatever the fetched \<open>PackageType\<close>); when
  it is not empty, both are copied from the fetched record. With children present the read
  reaches the write only after a successful workspace lookup.
\<close>

theorem type_fields_share_one_guard:
  assumes "Config_Get req = (data, cds)"
    and "\<not> HasError (Append (Diagnostics resp) cds)"
    and "wid = (case GetWorkspace d (ValueString (RepositoryDataSourceModel.WorkspaceId data)) of
                  Inl e \<Rightarrow> '''' | Inr ws \<Rightarrow> Workspace.Id ws)"
    and "GetRepository d wid (ValueString (RepositoryDataSourceModel.Name data)) = Inr rp"
    and "\<And>cs. ChildRepositories rp = Some cs \<Longrightarrow>
           \<not> isl (GetWorkspace d (ValueString (RepositoryDataSourceModel.WorkspaceId data))) \<and>
           \<not> HasError (snd (lvf (map ChildRepository.Id cs)))"
    and "\<And>v. \<not> HasError (State_Set resp v)"
    and "RepositoryDataSource_Read lvf d req resp = (resp', tr)"
  shows "\<exists>st. State resp' = Some st \<and>
           (Repository.RepositoryType rp = '''' \<longrightarrow>
              RepositoryDataSourceModel.PackageType st = RepositoryDataSourceModel.PackageType data \<and>
              RepositoryDataSourceModel.RepositoryType st = RepositoryDataSourceModel.RepositoryType data) \<and>
           (Repository.RepositoryType rp \<noteq> '''' \<longrightarrow>
              RepositoryDataSourceModel.PackageType st = StringValue (Repository.PackageType rp) \<and>
              RepositoryDataSourceModel.RepositoryType st =
                StringValue (Repository.RepositoryType rp))"
proof -
  obtain v where "State (fst (RepositoryDataSource_Read lvf d req resp)) =
                    Some ((Read_fields wid rp data)\<lparr>ChildRepositoryIds := v\<rparr>)"
    by (rule exE [OF Read_writes [where lvf = lvf and cds = cds]]) (rule assms | assumption)+
  with assms(7) show ?thesis by (simp add: Read_fields_sel)
qed

theorem type_fields_share_one_guard_witness:
  "Repository.RepositoryType example_untyped = '''' \<and>
   Repository.PackageType example_untyped = ''npm'' \<and>
   map_option RepositoryDataSourceModel.PackageType
     (State (fst (RepositoryDataSource_Read example_ListValueFrom example_client
        (example_typed_request ''acme'' ''raw'') example_response))) = Some (StringValue ''maven'') \<and>
   map_option RepositoryDataSourceModel.RepositoryType
     (State (fst (RepositoryDataSource_Read example_ListValueFrom example_client
        (example_typed_request ''acme'' ''raw'') example_response))) = Some (StringValue ''remote'') \<and>
   Repository.RepositoryType example_repository = ''local'' \<and>
   map_option RepositoryDataSourceModel.PackageType
     (State (fst (RepositoryDataSource_Read example_ListValueFrom example_client
        (example_typed_request ''acme'' ''libs'') example_response))) = Some (StringValue ''npm'') \<and>
   map_option RepositoryDataSourceModel.RepositoryType
     (State (fst (RepositoryDataSource_Read example_ListValueFrom example_client
        (example_typed_request ''acme'' ''libs'') example_response))) = Some (StringValue ''local'')"
proof -
  let ?U = "RepositoryDataSource_Read example_ListValueFrom example_client
              (example_typed_request ''acme'' ''raw'') example_response"
  let ?L = "RepositoryDataSource_Read example_ListValueFrom example_client
              (example_typed_request ''acme'' ''libs'') example_response"
  have cfg: "Config_Get (example_typed_request workspace name) =
               (fst (Config_Get (example_typed_request workspace name)), [])" for workspace name
    by (simp add: example_typed_request_def)
  have wid: "''w-1'' =
      (case GetWorkspace example_client (ValueString (RepositoryDataSourceModel.WorkspaceId
              (fst (Config_Get (example_typed_request ''acme'' name))))) of
         Inl e \<Rightarrow> '''' | Inr ws \<Rightarrow> Workspace.Id ws)" for name
    by (simp add: example_typed_request_def example_request_def example_client_def
          example_workspace_def)
  have raw: "GetRepository example_client ''w-1''
               (ValueString (RepositoryDataSourceModel.Name
                  (fst (Config_Get (example_typed_request ''acme'' ''raw''))))) = Inr example_untyped"
    by (simp add: example_typed_request_def example_request_def example_client_def)
  have libs: "GetRepository example_client ''w-1''
               (ValueString (RepositoryDataSourceModel.Name
                  (fst (Config_Get (example_typed_request ''acme'' ''libs''))))) = Inr example_repository"
    by (simp add: example_typed_request_def example_request_def example_client_def)
  have no_children_raw: "ChildRepositories example_untyped = Some cs \<Longrightarrow>
      \<not> isl (GetWorkspace example_client (ValueString (RepositoryDataSourceModel.WorkspaceId
              (fst (Config_Get (example_typed_request ''acme'' ''raw'')))))) \<and>
      \<not> HasError (snd (example_ListValueFrom (map ChildRepository.Id cs)))" for cs
    by (simp add: example_untyped_def example_repository_def)
  have no_children_libs: "ChildRepositories example_repository = Some cs \<Longrightarrow>
      \<not> isl (GetWorkspace example_client (ValueString (RepositoryDataSourceModel.WorkspaceId
              (fst (Config_Get (example_typed_request ''acme'' ''libs'')))))) \<and>
      \<not> HasError (snd (example_ListValueFrom (map ChildRepository.Id cs)))" for cs
    by (simp add: example_repository_def)
  have runu: "?U = (fst ?U, snd ?U)" and runl: "?L = (fst ?L, snd ?L)" by simp_all
  from type_fields_share_one_guard
         [where lvf = example_ListValueFrom, OF cfg example_response_no_error wid raw no_children_raw example_response_set_ok runu]
       type_fields_share_one_guard
         [where lvf = example_ListValueFrom, OF cfg example_response_no_error wid libs no_children_libs example_response_set_ok runl]
  show ?thesis
    by (auto simp: example_untyped_def example_repository_def example_typed_request_def
          example_request_def)
qed

text \<open>
  Claim C4, as amended. In a read that writes the state, the id is the resolved workspace id,
  a slash and the id of the fetched repository, and the state holds the two components; the
  split at the first slash gives the two components back when the workspace id has no slash.
\<close>

theorem composite_id_join:
  assumes "RepositoryDataSource_Read lvf d req resp = (resp', tr)"
    and "State resp = None" and "State resp' = Some st"
    and "GetRepositoryCall wid name \<in> set tr" and "GetRepository d wid name = Inr rp"
  shows "RepositoryDataSourceModel.Id st = StringValue (wid @ ''/'' @ Repository.Id rp) \<and>
         RepositoryDataSourceModel.WorkspaceId st = StringValue wid \<and>
         RepositoryDataSourceModel.RepositoryId st = StringValue (Repository.Id rp) \<and>
         (CHR ''/'' \<notin> set wid \<longrightarrow>
            split_first_slash (wid @ ''/'' @ Repository.Id rp) = (wid, Repository.Id rp))"
proof -
  obtain v where "st = (Read_fields wid rp (fst (Config_Get req)))\<lparr>ChildRepositoryIds := v\<rparr>"
    using Read_written_fetched [OF assms] by blast
  then show ?thesis by (simp add: Read_fields_sel split_first_slash_join)
qed

theorem composite_id_join_witness:
  "map_option RepositoryDataSourceModel.Id
     (State (fst (RepositoryDataSource_Read example_ListValueFrom example_client
        (example_request ''acme'' ''libs'') example_response))) = Some (StringValue ''w-1/r-9'') \<and>
   CHR ''/'' \<notin> set ''w-1'' \<and>
   split_first_slash ''w-1/r-9'' = (''w-1'', ''r-9'')"
proof -
  let ?R = "RepositoryDataSource_Read example_ListValueFrom example_client
              (example_request ''acme'' ''libs'') example_response"
  obtain st where st: "State (fst ?R) = Some st" by (simp add: example_read_libs)
  have run: "?R = (fst ?R, snd ?R)" by simp
  have call: "GetRepositoryCall ''w-1'' ''libs'' \<in> set (snd ?R)" by (simp add: example_read_libs)
  have rp: "GetRepository example_client ''w-1'' ''libs'' = Inr example_repository"
    by (simp add: example_client_def)
  from composite_id_join [OF run example_response_fresh st call rp] st
  show ?thesis
    by (simp add: example_repository_def)
qed

text \<open>
  The workspace \<open>team\<close> has the id \<open>a/b\<close>: the composite id \<open>a/b/c\<close> splits at its first slash
  into \<open>a\<close> and \<open>b/c\<close>, which are not the two components.
\<close>

theorem composite_id_split_counterexample:
  "map_option RepositoryDataSourceModel.Id
     (State (fst (RepositoryDataSource_Read example_ListValueFrom example_client
        (example_request ''team'' ''libs'') example_response))) = Some (StringValue ''a/b/c'') \<and>
   map_option RepositoryDataSourceModel.WorkspaceId
     (State (fst (RepositoryDataSource_Read example_ListValueFrom example_client
        (example_request ''team'' ''libs'') example_response))) = Some (StringValue ''a/b'') \<and>
   map_option RepositoryDataSourceModel.RepositoryId
     (State (fst (RepositoryDataSource_Read example_ListValueFrom example_client
        (example_request ''team'' ''libs'') example_response))) = Some (StringValue ''c'') \<and>
   split_first_slash ''a/b/c'' = (''a'', ''b/c'') \<and>
   split_first_slash ''a/b/c'' \<noteq> (''a/b'', ''c'')"
  by (simp add: example_read_team_libs split_first_slash_def)

text \<open>
  Claim C5. In a read that writes the state: when the fetched \<open>ChildRepositories\<close> is nil, the
  child ids of the state are the null list, which is not the empty list; when it holds the
  children \<open>cs\<close>, the child ids are the list value that the framework's conversion returns,
  without an error, for the slice of the ids of \<open>cs\<close>, one per child and in their order.
\<close>

theorem child_ids_null_or_in_order:
  assumes "RepositoryDataSource_Read lvf d req resp = (resp', tr)"
    and "State resp = None" and "State resp' = Some st"
    and "GetRepositoryCall wid name \<in> set tr" and "GetRepository d wid name = Inr rp"
  shows "(ChildRepositories rp = None \<longrightarrow>
            ChildRepositoryIds st = ListNull \<and> ChildRepositoryIds st \<noteq> ListValue []) \<and>
         (\<forall>cs. ChildRepositories rp = Some cs \<longrightarrow>
            (\<exists>ds. lvf (map ChildRepository.Id cs) = (ChildRepositoryIds st, ds) \<and> \<not> HasError ds))"
proof -
  obtain v where st: "st = (Read_fields wid rp (fst (Config_Get req)))\<lparr>ChildRepositoryIds := v\<rparr>"
    and v: "case ChildRepositories rp of None \<Rightarrow> v = ListNull
            | Some cs \<Rightarrow> v = fst (lvf (map ChildRepository.Id cs)) \<and>
                         \<not> HasError (snd (lvf (map ChildRepository.Id cs)))"
    using Read_written_fetched [OF assms] by blast
  show ?thesis
  proof (cases "ChildRepositories rp")
    case None
    with st v show ?thesis by simp
  next
    case (Some cs)
    with st v show ?thesis by (cases "lvf (map ChildRepository.Id cs)") simp
  qed
qed

theorem child_ids_null_or_in_order_witness:
  "map_option ChildRepositoryIds
     (State (fst (RepositoryDataSource_Read example_ListValueFrom example_client
        (example_request ''acme'' ''all'') example_response)))
     = Some (ListValue [StringValue ''r-9'', StringValue ''r-2'']) \<and>
   ChildRepositories example_virtual =
     Some [\<lparr>ChildRepository.Id = ''r-9''\<rparr>, \<lparr>ChildRepository.Id = ''r-2''\<rparr>]"
proof -
  let ?R = "RepositoryDataSource_Read example_ListValueFrom example_client
              (example_request ''acme'' ''all'') example_response"
  obtain st where st: "State (fst ?R) = Some st" by (simp add: example_read_all)
  have run: "?R = (fst ?R, snd ?R)" by simp
  have call: "GetRepositoryCall ''w-1'' ''all'' \<in> set (snd ?R)" by (simp add: example_read_all)
  have rp: "GetRepository example_client ''w-1'' ''all'' = Inr example_virtual"
    by (simp add: example_client_def)
  from child_ids_null_or_in_order [OF run example_response_fresh st call rp] st
  show ?thesis
    by (simp add: example_virtual_def example_ListValueFrom_def)
qed

text \<open>
  Claim C7. In a read that writes the state, each of the two cache fields is null when the
  fetched pointer is nil, and otherwise a known 64-bit value with the same signed value as the
  fetched \<open>int\<close> (of at most 64 bits), zero included.
\<close>

theorem cache_fields_lossless:
  fixes d :: "('w::len) word Client"
  assumes "RepositoryDataSource_Read lvf d req resp = (resp', tr)"
    and "State resp = None" and "State resp' = Some st"
    and "GetRepositoryCall wid name \<in> set tr" and "GetRepository d wid name = Inr rp"
    and "LENGTH('w) \<le> 64"
  shows "(Repository.FileCacheTimeTillRevalidation rp = None \<longrightarrow>
            RepositoryDataSourceModel.FileCacheTimeTillRevalidation st = Int64Null) \<and>
         (\<forall>v. Repository.FileCacheTimeTillRevalidation rp = Some v \<longrightarrow>
            (\<exists>v'. RepositoryDataSourceModel.FileCacheTimeTillRevalidation st = Int64Value v' \<and>
                  sint v' = sint v)) \<and>
         (Repository.MetadataCacheTimeTillRevalidation rp = None \<longrightarrow>
            RepositoryDataSourceModel.MetadataCacheTimeTillRevalidation st = Int64Null) \<and>
         (\<forall>v. Repository.MetadataCacheTimeTillRevalidation rp = Some v \<longrightarrow>
            (\<exists>v'. RepositoryDataSourceModel.MetadataCacheTimeTillRevalidation st = Int64Value v' \<and>
                  sint v' = sint v))"
proof -
  obtain v where "st = (Read_fields wid rp (fst (Config_Get req)))\<lparr>ChildRepositoryIds := v\<rparr>"
    using Read_written_fetched [OF assms(1-5)] by blast
  then show ?thesis
    using assms(6) by (simp add: Read_fields_sel IntPtrToInt64Ptr_def scast_keeps_value)
qed

theorem cache_fields_lossless_witness:
  "LENGTH(32) \<le> (64 :: nat) \<and>
   Repository.FileCacheTimeTillRevalidation example_virtual = Some 0 \<and>
   Repository.MetadataCacheTimeTillRevalidation example_virtual = Some 86400000 \<and>
   map_option RepositoryDataSourceModel.FileCacheTimeTillRevalidation
     (State (fst (RepositoryDataSource_Read example_ListValueFrom example_client
        (example_request ''acme'' ''all'') example_response))) = Some (Int64Value 0) \<and>
   map_option RepositoryDataSourceModel.MetadataCacheTimeTillRevalidation
     (State (fst (RepositoryDataSource_Read example_ListValueFrom example_client
        (example_request ''acme'' ''all'') example_response))) = Some (Int64Value 86400000)"
proof -
  let ?R = "RepositoryDataSource_Read example_ListValueFrom example_client
              (example_request ''acme'' ''all'') example_response"
  obtain st where st: "State (fst ?R) = Some st" by (simp add: example_read_all)
  have run: "?R = (fst ?R, snd ?R)" by simp
  have call: "GetRepositoryCall ''w-1'' ''all'' \<in> set (snd ?R)" by (simp add: example_read_all)
  have rp: "GetRepository example_client ''w-1'' ''all'' = Inr example_virtual"
    by (simp add: example_client_def)
  have width: "LENGTH(32) \<le> (64 :: nat)" by simp
  from cache_fields_lossless [OF run example_response_fresh st call rp width] st
  show ?thesis
    by (auto simp: example_virtual_def example_read_all)
qed

text \<open>
  Claim C8. In a read that writes the state, \<open>RemoteRepositoryUrl\<close> and
  \<open>UploadLocalRepositoryId\<close> are null when the fetched pointer is nil (not the empty string),
  and the known pointed-to string otherwise.
\<close>

theorem optional_strings_pass_through:
  assumes "RepositoryDataSource_Read lvf d req resp = (resp', tr)"
    and "State resp = None" and "State resp' = Some st"
    and "GetRepositoryCall wid name \<in> set tr" and "GetRepository d wid name = Inr rp"
  shows "(Repository.RemoteRepositoryUrl rp = None \<longrightarrow>
            RepositoryDataSourceModel.RemoteRepositoryUrl st = StringNull) \<and>
         (\<forall>u. Repository.RemoteRepositoryUrl rp = Some u \<longrightarrow>
            RepositoryDataSourceModel.RemoteRepositoryUrl st = StringValue u) \<and>
         (Repository.UploadLocalRepositoryId rp = None \<longrightarrow>
            RepositoryDataSourceModel.UploadLocalRepositoryId st = StringNull) \<and>
         (\<forall>u. Repository.UploadLocalRepositoryId rp = Some u \<longrightarrow>
            RepositoryDataSourceModel.UploadLocalRepositoryId st = StringValue u)"
proof -
  obtain v where "st = (Read_fields wid rp (fst (Config_Get req)))\<lparr>ChildRepositoryIds := v\<rparr>"
    using Read_written_fetched [OF assms] by blast
  then show ?thesis by (simp add: Read_fields_sel)
qed

theorem optional_strings_pass_through_witness:
  "Repository.RemoteRepositoryUrl example_repository = None \<and>
   Repository.UploadLocalRepositoryId example_virtual = Some ''r-9'' \<and>
   map_option RepositoryDataSourceModel.RemoteRepositoryUrl
     (State (fst (RepositoryDataSource_Read example_ListValueFrom example_client
        (example_request ''acme'' ''libs'') example_response))) = Some StringNull \<and>
   map_option RepositoryDataSourceModel.UploadLocalRepositoryId
     (State (fst (RepositoryDataSource_Read example_ListValueFrom example_client
        (example_request ''acme'' ''all'') example_response))) = Some (StringValue ''r-9'')"
proof -
  let ?R = "RepositoryDataSource_Read example_ListValueFrom example_client
              (example_request ''acme'' ''libs'') example_response"
  let ?A = "RepositoryDataSource_Read example_ListValueFrom example_client
              (example_request ''acme'' ''all'') example_response"
  obtain st where st: "State (fst ?R) = Some st" by (simp add: example_read_libs)
  obtain sa where sa: "State (fst ?A) = Some sa" by (simp add: example_read_all)
  have run: "?R = (fst ?R, snd ?R)" and runa: "?A = (fst ?A, snd ?A)" by simp_all
  have call: "GetRepositoryCall ''w-1'' ''libs'' \<in> set (snd ?R)" by (simp add: example_read_libs)
  have calla: "GetRepositoryCall ''w-1'' ''all'' \<in> set (snd ?A)" by (simp add: example_read_all)
  have rp: "GetRepository example_client ''w-1'' ''libs'' = Inr example_repository"
    by (simp add: example_client_def)
  have rpa: "GetRepository example_client ''w-1'' ''all'' = Inr example_virtual"
    by (simp add: example_client_def)
  from optional_strings_pass_through [OF run example_response_fresh st call rp]
    optional_strings_pass_through [OF runa example_response_fresh sa calla rpa] st sa
  show ?thesis
    by (simp add: example_repository_def example_virtual_def)
qed

section \<open>The claims about failures\<close>

text \<open>
  Claim C2, as amended. When \<open>GetWorkspace\<close> fails (and \<open>State.Set\<close> reports no error), the
  error is recorded as an error diagnostic and the read goes on to call \<open>GetRepository\<close> with
  the empty workspace id; if that call succeeds and the fetched \<open>ChildRepositories\<close> is nil, the
  read writes the state, and its composite key is a slash followed by the repository id.
\<close>

theorem workspace_failure_continues:
  assumes "Config_Get req = (data, cds)"
    and "\<not> HasError (Append (Diagnostics resp) cds)"
    and "GetWorkspace d (ValueString (RepositoryDataSourceModel.WorkspaceId data)) = Inl e"
    and "\<And>v. \<not> HasError (State_Set resp v)"
    and "RepositoryDataSource_Read lvf d req resp = (resp', tr)"
  shows "Diag SeverityError ''Client Error''
           (''Unable to get worksapce '' @ '''' @ '', got error: '' @ e) \<in> set (Diagnostics resp') \<and>
         GetRepositoryCall '''' (ValueString (RepositoryDataSourceModel.Name data)) \<in> set tr \<and>
         (\<forall>rp. GetRepository d '''' (ValueString (RepositoryDataSourceModel.Name data)) = Inr rp \<and>
               ChildRepositories rp = None \<longrightarrow>
               (\<exists>st. State resp' = Some st \<and>
                     RepositoryDataSourceModel.Id st = StringValue (''/'' @ Repository.Id rp)))"
proof -
  have "prefix (Append (Diagnostics resp) cds @
                  [Diag SeverityError ''Client Error''
                     (''Unable to get worksapce '' @ '''' @ '', got error: '' @ e)])
               (Diagnostics resp')"
    using assms(1,2,3,5) by (rule Read_workspace_failure_prefix)
  then have recorded: "Diag SeverityError ''Client Error''
      (''Unable to get worksapce '' @ '''' @ '', got error: '' @ e) \<in> set (Diagnostics resp')"
    by (auto simp: prefix_def)
  have called: "GetRepositoryCall '''' (ValueString (RepositoryDataSourceModel.Name data)) \<in> set tr"
    using assms(1,2,3,5)
    by (auto simp: Read_after_fetch Let_def split: sum.splits prod.splits if_splits)
  have completes: "\<exists>st. State resp' = Some st \<and>
                     RepositoryDataSourceModel.Id st = StringValue (''/'' @ Repository.Id rp)"
    if "GetRepository d '''' (ValueString (RepositoryDataSourceModel.Name data)) = Inr rp"
      and "ChildRepositories rp = None" for rp
    using assms that
    by (auto simp: Read_after_fetch Let_def Read_children_None State_Set_State Read_fields_sel)
  from recorded called completes show ?thesis by blast
qed

theorem workspace_failure_continues_witness:
  "GetWorkspace example_client ''ghost'' = Inl ''workspace ghost not found'' \<and>
   GetRepository example_client '''' ''libs'' = Inr example_repository \<and>
   ChildRepositories example_repository = None \<and>
   Diag SeverityError ''Client Error''
     ''Unable to get worksapce , got error: workspace ghost not found''
     \<in> set (Diagnostics (fst (RepositoryDataSource_Read example_ListValueFrom example_client
          (example_request ''ghost'' ''libs'') example_response))) \<and>
   GetRepositoryCall '''' ''libs''
     \<in> set (snd (RepositoryDataSource_Read example_ListValueFrom example_client
          (example_request ''ghost'' ''libs'') example_response)) \<and>
   map_option RepositoryDataSourceModel.Id
     (State (fst (RepositoryDataSource_Read example_ListValueFrom example_client
        (example_request ''ghost'' ''libs'') example_response))) = Some (StringValue ''/r-9'')"
proof -
  let ?R = "RepositoryDataSource_Read example_ListValueFrom example_client
              (example_request ''ghost'' ''libs'') example_response"
  have ws: "GetWorkspace example_client
              (ValueString (RepositoryDataSourceModel.WorkspaceId
                 (fst (Config_Get (example_request ''ghost'' ''libs''))))) =
            Inl ''workspace ghost not found''"
    by (simp add: example_client_def example_request_def)
  have run: "?R = (fst ?R, snd ?R)" by simp
  have rp: "GetRepository example_client '''' ''libs'' = Inr example_repository"
    by (simp add: example_client_def)
  have nil: "ChildRepositories example_repository = None"
    by (simp add: example_repository_def)
  from workspace_failure_continues
         [OF example_request_config example_response_no_error ws example_response_set_ok run]
    rp nil
  show ?thesis
    by (auto simp: example_request_def example_repository_def example_client_def)
qed

text \<open>
  The workspace \<open>ghost\<close> does not exist, and the client answers for the repository \<open>all\<close>, which
  has children, under the empty workspace id: the check of the diagnostics after the
  conversion of the children sees the recorded error, and the read writes no state.
\<close>

theorem workspace_failure_with_children_aborts:
  "isl (GetWorkspace example_client ''ghost'') \<and>
   GetRepository example_client '''' ''all'' = Inr example_virtual \<and>
   State (fst (RepositoryDataSource_Read example_ListValueFrom example_client
      (example_request ''ghost'' ''all'') example_response)) = None \<and>
   snd (RepositoryDataSource_Read example_ListValueFrom example_client
      (example_request ''ghost'' ''all'') example_response) =
     [GetWorkspaceCall ''ghost'', GetRepositoryCall '''' ''all'']"
proof -
  have "isl (GetWorkspace example_client ''ghost'')"
    and "GetRepository example_client '''' ''all'' = Inr example_virtual"
    by (simp_all add: example_client_def)
  then show ?thesis by (simp add: example_read_ghost_all)
qed

text \<open>
  Claim C3. When the workspace lookup succeeds and \<open>GetRepository\<close> returns an error, the read
  returns without writing the state, after the two calls, and the response holds exactly one
  error diagnostic; its message contains the repository name and the workspace id.
\<close>

theorem repository_failure_aborts:
  assumes "Config_Get req = (data, cds)"
    and "\<not> HasError (Append (Diagnostics resp) cds)"
    and "GetWorkspace d (ValueString (RepositoryDataSourceModel.WorkspaceId data)) = Inr ws"
    and "GetRepository d (Workspace.Id ws) (ValueString (RepositoryDataSourceModel.Name data)) = Inl e"
    and "RepositoryDataSource_Read lvf d req resp = (resp', tr)"
  shows "State resp' = State resp \<and>
         tr = [GetWorkspaceCall (ValueString (RepositoryDataSourceModel.WorkspaceId data)),
               GetRepositoryCall (Workspace.Id ws) (ValueString (RepositoryDataSourceModel.Name data))] \<and>
         (\<exists>msg. msg = ''Unable to read repository '' @ ValueString (RepositoryDataSourceModel.Name data)
                      @ '' on workspaceId '' @ Workspace.Id ws @ '', got error: '' @ e \<and>
                filter (\<lambda>x. Severity x = SeverityError) (Diagnostics resp')
                  = [Diag SeverityError ''Client Error'' msg] \<and>
                sublist (ValueString (RepositoryDataSourceModel.Name data)) msg \<and>
                sublist (Workspace.Id ws) msg)"
proof -
  let ?name = "ValueString (RepositoryDataSourceModel.Name data)"
  let ?msg = "''Unable to read repository '' @ ?name @ '' on workspaceId '' @ Workspace.Id ws
                @ '', got error: '' @ e"
  have "sublist ?name (''Unable to read repository '' @ ?name @
          ('' on workspaceId '' @ Workspace.Id ws @ '', got error: '' @ e))"
    by (rule sublist_appendI)
  then have name: "sublist ?name ?msg" by simp
  have "sublist (Workspace.Id ws)
          ((''Unable to read repository '' @ ?name @ '' on workspaceId '') @ Workspace.Id ws @
           ('', got error: '' @ e))"
    by (rule sublist_appendI)
  then have wid: "sublist (Workspace.Id ws) ?msg" by simp
  have res: "resp' = resp\<lparr>Diagnostics := Append (Diagnostics resp) cds @
                        [Diag SeverityError ''Client Error'' ?msg]\<rparr>"
    and tr: "tr = [GetWorkspaceCall (ValueString (RepositoryDataSourceModel.WorkspaceId data)),
                   GetRepositoryCall (Workspace.Id ws) ?name]"
    using assms by (simp_all add: Read_after_fetch Let_def AddError_fresh)
  from res assms(2) have "filter (\<lambda>x. Severity x = SeverityError) (Diagnostics resp')
                            = [Diag SeverityError ''Client Error'' ?msg]"
    by (simp add: filter_no_error)
  with res tr name wid show ?thesis by simp
qed

theorem repository_failure_aborts_witness:
  "GetWorkspace example_client ''acme'' = Inr example_workspace \<and>
   GetRepository example_client ''w-1'' ''nope'' = Inl ''repository not found'' \<and>
   State (fst (RepositoryDataSource_Read example_ListValueFrom example_client
      (example_request ''acme'' ''nope'') example_response)) = None \<and>
   filter (\<lambda>x. Severity x = SeverityError)
     (Diagnostics (fst (RepositoryDataSource_Read example_ListValueFrom example_client
        (example_request ''acme'' ''nope'') example_response))) =
     [Diag SeverityError ''Client Error''
        ''Unable to read repository nope on workspaceId w-1, got error: repository not found''] \<and>
   sublist ''nope''
     ''Unable to read repository nope on workspaceId w-1, got error: repository not found'' \<and>
   sublist ''w-1''
     ''Unable to read repository nope on workspaceId w-1, got error: repository not found''"
proof -
  let ?R = "RepositoryDataSource_Read example_ListValueFrom example_client
              (example_request ''acme'' ''nope'') example_response"
  have ws: "GetWorkspace example_client
              (ValueString (RepositoryDataSourceModel.WorkspaceId
                 (fst (Config_Get (example_request ''acme'' ''nope''))))) = Inr example_workspace"
    by (simp add: example_client_def example_request_def)
  have rp: "GetRepository example_client (Workspace.Id example_workspace)
              (ValueString (RepositoryDataSourceModel.Name
                 (fst (Config_Get (example_request ''acme'' ''nope''))))) =
            Inl ''repository not found''"
    by (simp add: example_client_def example_request_def example_workspace_def)
  have run: "?R = (fst ?R, snd ?R)" by simp
  from repository_failure_aborts
         [OF example_request_config example_response_no_error ws rp run]
  show ?thesis
    by (simp add: example_request_def example_workspace_def example_client_def
          example_response_def)
qed

text \<open>
  Claim C6. For a decoded configuration, a response without state and a \<open>State.Set\<close> that
  reports no error: the read of a workspace writes the state exactly when \<open>GetWorkspace\<close>
  succeeds; then the state holds the \<open>Id\<close> and the \<open>Name\<close> that \<open>GetWorkspace\<close> returned and
  there is no error diagnostic; on an error the state is not written, the response holds one
  error diagnostic, and \<open>GetWorkspace\<close> was called once.
\<close>

theorem workspace_read_iff_lookup:
  assumes "Config_Get req = (data, cds)"
    and "\<not> HasError (Append (Diagnostics resp) cds)"
    and "State resp = None"
    and "\<And>v. \<not> HasError (State_Set resp v)"
    and "WorkspaceDataSource_Read d req resp = (resp', tr)"
  shows "(State resp' \<noteq> None \<longleftrightarrow>
            \<not> isl (GetWorkspace d (ValueString (WorkspaceResourceModel.Name data)))) \<and>
         (\<forall>ws. GetWorkspace d (ValueString (WorkspaceResourceModel.Name data)) = Inr ws \<longrightarrow>
            (\<exists>st. State resp' = Some st \<and>
                  WorkspaceResourceModel.Id st = StringValue (Workspace.Id ws) \<and>
                  WorkspaceResourceModel.Name st = StringValue (Workspace.Name ws)) \<and>
            \<not> HasError (Diagnostics resp') \<and>
            tr = [GetWorkspaceCall (ValueString (WorkspaceResourceModel.Name data)),
                  TraceLog ''read workspace data''
                    [(''name'', ValueString (WorkspaceResourceModel.Name data)),
                     (''id'', Workspace.Id ws)]]) \<and>
         (\<forall>e. GetWorkspace d (ValueString (WorkspaceResourceModel.Name data)) = Inl e \<longrightarrow>
            State resp' = None \<and>
            filter (\<lambda>x. Severity x = SeverityError) (Diagnostics resp') =
              [Diag SeverityError ''Client Error'' (''Unable to get workspace, got error: '' @ e)] \<and>
            tr = [GetWorkspaceCall (ValueString (WorkspaceResourceModel.Name data))])"
  using assms
  by (cases "GetWorkspace d (ValueString (WorkspaceResourceModel.Name data))")
     (auto simp: WorkspaceDataSource_Read_def Let_def State_Set_State AddError_fresh
                 filter_no_error Set_State_def HasError_Append)

theorem workspace_read_iff_lookup_witness:
  "GetWorkspace example_client ''acme'' = Inr example_workspace \<and>
   State (fst (WorkspaceDataSource_Read example_client
      (example_workspace_request ''acme'') example_response)) =
     Some \<lparr>WorkspaceResourceModel.Name = StringValue ''acme'', Id = StringValue ''w-1''\<rparr> \<and>
   isl (GetWorkspace example_client ''ghost'') \<and>
   State (fst (WorkspaceDataSource_Read example_client
      (example_workspace_request ''ghost'') example_response)) = None \<and>
   snd (WorkspaceDataSource_Read example_client
      (example_workspace_request ''ghost'') example_response) = [GetWorkspaceCall ''ghost'']"
proof -
  let ?A = "WorkspaceDataSource_Read example_client
              (example_workspace_request ''acme'') example_response"
  let ?G = "WorkspaceDataSource_Read example_client
              (example_workspace_request ''ghost'') example_response"
  have cfg: "Config_Get (example_workspace_request name) =
               (\<lparr>WorkspaceResourceModel.Name = StringValue name, Id = StringNull\<rparr>, [])" for name
    by (simp add: example_workspace_request_def)
  have runa: "?A = (fst ?A, snd ?A)" and rung: "?G = (fst ?G, snd ?G)" by simp_all
  from workspace_read_iff_lookup
         [OF cfg example_response_no_error example_response_fresh example_response_set_ok runa]
       workspace_read_iff_lookup
         [OF cfg example_response_no_error example_response_fresh example_response_set_ok rung]
  show ?thesis
    by (auto simp: example_client_def example_workspace_def)
qed

text \<open>
  Claim C9. When the conversion of the child ids returns an error diagnostic, the read returns
  before the trace log and the write of the state: the state is as it was, and the response
  holds an error.
\<close>

theorem failed_list_conversion_writes_nothing:
  assumes "RepositoryDataSource_Read lvf d req resp = (resp', tr)"
    and "GetRepositoryCall wid name \<in> set tr" and "GetRepository d wid name = Inr rp"
    and "ChildRepositories rp = Some cs"
    and "HasError (snd (lvf (map ChildRepository.Id cs)))"
  shows "State resp' = State resp \<and> HasError (Diagnostics resp') \<and>
         tr = [GetWorkspaceCall (ValueString (RepositoryDataSourceModel.WorkspaceId (fst (Config_Get req)))),
               GetRepositoryCall wid name]"
  using assms
  by (auto simp: Read_after_fetch Let_def Read_children_failing HasError_Append
           split: sum.splits prod.splits if_splits)

theorem failed_list_conversion_writes_nothing_witness:
  "GetRepository example_client ''w-1'' ''all'' = Inr example_virtual \<and>
   HasError (snd (failing_ListValueFrom [''r-9'', ''r-2''])) \<and>
   State (fst (RepositoryDataSource_Read failing_ListValueFrom example_client
      (example_request ''acme'' ''all'') example_response)) = None \<and>
   HasError (Diagnostics (fst (RepositoryDataSource_Read failing_ListValueFrom example_client
      (example_request ''acme'' ''all'') example_response))) \<and>
   snd (RepositoryDataSource_Read failing_ListValueFrom example_client
      (example_request ''acme'' ''all'') example_response) =
     [GetWorkspaceCall ''acme'', GetRepositoryCall ''w-1'' ''all'']"
proof -
  let ?R = "RepositoryDataSource_Read failing_ListValueFrom example_client
              (example_request ''acme'' ''all'') example_response"
  let ?cs = "[\<lparr>ChildRepository.Id = ''r-9''\<rparr>, \<lparr>ChildRepository.Id = ''r-2''\<rparr>]"
  have run: "?R = (fst ?R, snd ?R)" by simp
  have call: "GetRepositoryCall ''w-1'' ''all'' \<in> set (snd ?R)"
    by (simp add: example_read_all_failing_list)
  have rp: "GetRepository example_client ''w-1'' ''all'' = Inr example_virtual"
    by (simp add: example_client_def)
  have cs: "ChildRepositories example_virtual = Some ?cs"
    by (simp add: example_virtual_def)
  have bad: "HasError (snd (failing_ListValueFrom (map ChildRepository.Id ?cs)))"
    by (simp add: failing_ListValueFrom_def HasError_def)
  from failed_list_conversion_writes_nothing [OF run call rp cs bad] rp bad
  show ?thesis
    by (simp add: example_response_def example_request_def)
qed

text \<open>
  Claim C10, as amended. When \<open>GetWorkspace\<close> fails, the first error diagnostic of the response
  is the one of the workspace lookup, and its message is exactly the wording
  \<open>Unable to get worksapce\<close>, the empty local \<open>workspaceId\<close>, \<open>, got error:\<close> and the text of the
  error: the empty identifier is interpolated, not the workspace named in the configuration.
\<close>

theorem workspace_failure_message:
  assumes "Config_Get req = (data, cds)"
    and "\<not> HasError (Append (Diagnostics resp) cds)"
    and "GetWorkspace d (ValueString (RepositoryDataSourceModel.WorkspaceId data)) = Inl e"
    and "RepositoryDataSource_Read lvf d req resp = (resp', tr)"
  shows "\<exists>rest. filter (\<lambda>x. Severity x = SeverityError) (Diagnostics resp') =
           Diag SeverityError ''Client Error''
             (''Unable to get worksapce '' @ '''' @ '', got error: '' @ e) # rest"
  using first_error_after_prefix [OF assms(2) Read_workspace_failure_prefix [OF assms]] .

theorem workspace_failure_message_witness:
  "GetWorkspace example_client ''ghost'' = Inl ''workspace ghost not found'' \<and>
   hd (filter (\<lambda>x. Severity x = SeverityError)
     (Diagnostics (fst (RepositoryDataSource_Read example_ListValueFrom example_client
        (example_request ''ghost'' ''nope'') example_response)))) =
     Diag SeverityError ''Client Error''
       ''Unable to get worksapce , got error: workspace ghost not found''"
proof -
  let ?R = "RepositoryDataSource_Read example_ListValueFrom example_client
              (example_request ''ghost'' ''nope'') example_response"
  have ws: "GetWorkspace example_client
              (ValueString (RepositoryDataSourceModel.WorkspaceId
                 (fst (Config_Get (example_request ''ghost'' ''nope''))))) =
            Inl ''workspace ghost not found''"
    by (simp add: example_client_def example_request_def)
  have run: "?R = (fst ?R, snd ?R)" by simp
  from workspace_failure_message
         [OF example_request_config example_response_no_error ws run]
  show ?thesis
    by (auto simp: example_client_def)
qed

text \<open>
  The configuration asks for the workspace \<open>ghost\<close> and the error of the client names it: the
  message of the diagnostic contains the requested reference.
\<close>

theorem workspace_failure_message_contains_reference:
  "ValueString (RepositoryDataSourceModel.WorkspaceId
     (fst (Config_Get (example_request ''ghost'' ''libs'')))) = ''ghost'' \<and>
   isl (GetWorkspace example_client ''ghost'') \<and>
   Diagnostics (fst (RepositoryDataSource_Read example_ListValueFrom example_client
      (example_request ''ghost'' ''libs'') example_response)) =
     [Diag SeverityError ''Client Error''
        ''Unable to get worksapce , got error: workspace ghost not found''] \<and>
   sublist ''ghost'' ''Unable to get worksapce , got error: workspace ghost not found''"
proof -
  have "sublist ''ghost''
          (''Unable to get worksapce , got error: workspace '' @ ''ghost'' @ '' not found'')"
    by (rule sublist_appendI)
  then have inside: "sublist ''ghost''
      ''Unable to get worksapce , got error: workspace ghost not found''"
    by simp
  have failed: "isl (GetWorkspace example_client ''ghost'')"
    by (simp add: example_client_def)
  have asked: "ValueString (RepositoryDataSourceModel.WorkspaceId
     (fst (Config_Get (example_request ''ghost'' ''libs'')))) = ''ghost''"
    by (simp add: example_request_def)
  from inside failed asked show ?thesis
    by (simp add: example_read_ghost_libs)
qed

end
